theory Spec2Isabelle
  imports Main "HOL-Library.Word" "HOL-Library.Sublist"
begin

unbundle bit_operations_syntax

section \<open>The container launcher of simple-container.c\<close>

text \<open>
  The program is one C file with two functions: \<open>main\<close>, the launcher that runs on the
  host, and \<open>child_func\<close>, the bootstrap that runs inside the new namespaces.  Both are
  straight-line chains of system calls, each followed by a test of its return value.

  The embedding passes the state of one process explicitly.  What the kernel answers to
  a call is not decided by the program, so it is a parameter: an \<open>os\<close> gives the return
  value of every call.  Neither function makes the same call with the same arguments
  twice, so a function from calls to return values covers every behaviour of the kernel.
  A process state records every call with its return value and every line written,
  oldest first, and the part of the kernel state the properties below speak about: the
  environment, the propagation type of the mount tree and the mounts made.
\<close>

subsection \<open>Constants of the C library and the Linux headers\<close>

text \<open>
  \<open>STACK_SIZE\<close> is defined in the source file (line 10).  The other constants come from
  the headers the file includes; the values are those of Linux (\<open>stdlib.h\<close>,
  \<open>sys/mount.h\<close>, \<open>sched.h\<close>, \<open>signal.h\<close>).
\<close>

definition STACK_SIZE :: nat where
  "STACK_SIZE = 1024 * 1024"

definition EXIT_FAILURE :: int where
  "EXIT_FAILURE = 1"

definition MS_REC :: "64 word" where
  "MS_REC = 0x4000"

definition MS_PRIVATE :: "64 word" where
  "MS_PRIVATE = 0x40000"

definition MNT_DETACH :: "32 word" where
  "MNT_DETACH = 0x2"

definition CLONE_NEWNS :: "32 word" where
  "CLONE_NEWNS = 0x00020000"

definition CLONE_NEWCGROUP :: "32 word" where
  "CLONE_NEWCGROUP = 0x02000000"

definition CLONE_NEWUTS :: "32 word" where
  "CLONE_NEWUTS = 0x04000000"

definition CLONE_NEWIPC :: "32 word" where
  "CLONE_NEWIPC = 0x08000000"

definition CLONE_NEWUSER :: "32 word" where
  "CLONE_NEWUSER = 0x10000000"

definition CLONE_NEWPID :: "32 word" where
  "CLONE_NEWPID = 0x20000000"

definition CLONE_NEWNET :: "32 word" where
  "CLONE_NEWNET = 0x40000000"

definition SIGCHLD :: "32 word" where
  "SIGCHLD = 17"

text \<open>The low byte of the flags of \<open>clone\<close> is the signal sent to the parent when the
  child terminates (\<open>CSIGNAL\<close> in \<open>sched.h\<close>).\<close>

definition CSIGNAL :: "32 word" where
  "CSIGNAL = 0xff"

subsection \<open>System calls, events and process state\<close>

text \<open>A function pointer of the program: the only one is \<open>child_func\<close>.
  A stack pointer is an offset into the global array \<open>child_stack\<close>.\<close>

datatype fnptr = Child_func_ptr

datatype stackptr = Child_stack_plus nat

text \<open>The calls of the program with their arguments.  A \<open>char *\<close> argument that may be
  \<open>NULL\<close> is a \<open>string option\<close>; the status pointer of \<open>waitpid\<close> and the last argument of
  \<open>clone\<close> and of \<open>mount\<close> are only ever \<open>NULL\<close>, which is \<open>None\<close>.\<close>

datatype syscall =
    Mount "string option" string "string option" "64 word" "string option"
  | Sethostname string nat
  | Chroot string
  | Chdir string
  | Clearenv
  | Setenv string string int
  | Execv string "string list"
  | Clone fnptr stackptr "32 word" "string option"
  | Waitpid int "nat option" int
  | Umount2 string "32 word"

type_synonym os = "syscall \<Rightarrow> int"

datatype event =
    Printf string "int list"
  | Perror string
  | Call syscall int

datatype propagation = Shared | Private

text \<open>
  The state of a process: its \<open>events\<close>, its environment, and its mounts.
  \<open>propagation\<close> is the propagation type of the mount tree of the process's mount
  namespace; \<open>ns_mounts\<close> are the mount points of the mounts made in that namespace, as
  the process named them; \<open>host_mounts\<close> are the mount points in the mount table of the
  host's namespace.
\<close>

record proc =
  events :: "event list"
  environ :: "string \<rightharpoonup> string"
  propagation :: propagation
  ns_mounts :: "string list"
  host_mounts :: "string list"

text \<open>How a process ends: \<open>exit\<close> was called, the function returned, or \<open>execv\<close>
  replaced the process image, handing over the argument vector and the environment.\<close>

datatype outcome =
    Exited int
  | Returned int
  | Replaced string "string list" "string \<rightharpoonup> string"

definition log_event :: "event \<Rightarrow> proc \<Rightarrow> proc" where
  "log_event e s = s\<lparr>events := events s @ [e]\<rparr>"

definition printf :: "string \<Rightarrow> int list \<Rightarrow> proc \<Rightarrow> proc" where
  "printf fmt args s = log_event (Printf fmt args) s"

definition perror :: "string \<Rightarrow> proc \<Rightarrow> proc" where
  "perror msg s = log_event (Perror msg) s"

definition exit :: "int \<Rightarrow> proc \<Rightarrow> proc \<times> outcome" where
  "exit status s = (s, Exited status)"

text \<open>Every call asks the \<open>os\<close> for its return value and is recorded with it.\<close>

definition syscall_ret :: "os \<Rightarrow> syscall \<Rightarrow> proc \<Rightarrow> int \<times> proc" where
  "syscall_ret os c s = (os c, log_event (Call c (os c)) s)"

subsection \<open>What the calls do to the state\<close>

text \<open>
  \<open>mount\<close> with \<open>MS_PRIVATE\<close> changes the propagation type and mounts nothing; the whole
  tree of the namespace becomes private when the target is the root and \<open>MS_REC\<close> is set.
  Any other \<open>mount\<close> adds a mount in the caller's namespace, and the kernel replicates
  it to the host's namespace when the tree it is made in is shared.  A failed call
  (return value other than 0) changes nothing.
\<close>

definition mount_effect :: "string \<Rightarrow> 64 word \<Rightarrow> proc \<Rightarrow> proc" where
  "mount_effect target flags s =
     (if flags AND MS_PRIVATE \<noteq> 0 then
        (if flags AND MS_REC \<noteq> 0 \<and> target = ''/'' then s\<lparr>propagation := Private\<rparr> else s)
      else
        s\<lparr>ns_mounts := ns_mounts s @ [target],
          host_mounts := (if propagation s = Shared then host_mounts s @ [target]
                          else host_mounts s)\<rparr>)"

definition mount ::
  "os \<Rightarrow> string option \<Rightarrow> string \<Rightarrow> string option \<Rightarrow> 64 word \<Rightarrow> string option \<Rightarrow> proc
     \<Rightarrow> int \<times> proc" where
  "mount os source target fstype flags data s =
     (let (r, s') = syscall_ret os (Mount source target fstype flags data) s
      in (r, if r = 0 then mount_effect target flags s' else s'))"

definition sethostname :: "os \<Rightarrow> string \<Rightarrow> nat \<Rightarrow> proc \<Rightarrow> int \<times> proc" where
  "sethostname os name len s = syscall_ret os (Sethostname name len) s"

definition chroot :: "os \<Rightarrow> string \<Rightarrow> proc \<Rightarrow> int \<times> proc" where
  "chroot os path s = syscall_ret os (Chroot path) s"

definition chdir :: "os \<Rightarrow> string \<Rightarrow> proc \<Rightarrow> int \<times> proc" where
  "chdir os path s = syscall_ret os (Chdir path) s"

text \<open>\<open>clearenv\<close> of the C library empties the environment and returns 0 (glibc and musl
  have no failing path); the source does not look at its return value.\<close>

definition clearenv :: "proc \<Rightarrow> proc" where
  "clearenv s = log_event (Call Clearenv 0) (s\<lparr>environ := Map.empty\<rparr>)"

definition setenv :: "os \<Rightarrow> string \<Rightarrow> string \<Rightarrow> int \<Rightarrow> proc \<Rightarrow> int \<times> proc" where
  "setenv os name val overwrite s =
     (let (r, s') = syscall_ret os (Setenv name val overwrite) s
      in (r, if r = 0 \<and> (overwrite \<noteq> 0 \<or> environ s' name = None)
             then s'\<lparr>environ := (environ s')(name \<mapsto> val)\<rparr> else s'))"

text \<open>
  \<open>execv\<close> returns only when it fails.  The answer 0 of the \<open>os\<close> stands for a replaced
  process image: the result is then the final \<open>outcome\<close>, with the environment of that
  moment, and nothing after the call runs.  Any other answer is the value \<open>execv\<close>
  returns to the caller.
\<close>

definition execv :: "os \<Rightarrow> string \<Rightarrow> string list \<Rightarrow> proc \<Rightarrow> (outcome + int) \<times> proc" where
  "execv os path argv s =
     (let (r, s') = syscall_ret os (Execv path argv) s
      in (if r = 0 then Inl (Replaced path argv (environ s')) else Inr r, s'))"

definition clone ::
  "os \<Rightarrow> fnptr \<Rightarrow> stackptr \<Rightarrow> 32 word \<Rightarrow> string option \<Rightarrow> proc \<Rightarrow> int \<times> proc" where
  "clone os fn stack flags arg s = syscall_ret os (Clone fn stack flags arg) s"

definition waitpid :: "os \<Rightarrow> int \<Rightarrow> nat option \<Rightarrow> int \<Rightarrow> proc \<Rightarrow> int \<times> proc" where
  "waitpid os pid wstatus options s = syscall_ret os (Waitpid pid wstatus options) s"

definition umount2 :: "os \<Rightarrow> string \<Rightarrow> 32 word \<Rightarrow> proc \<Rightarrow> int \<times> proc" where
  "umount2 os target flags s = syscall_ret os (Umount2 target flags) s"

subsection \<open>The bootstrap: \<open>child_func\<close> (lines 14 to 94)\<close>

definition child_func :: "os \<Rightarrow> proc \<Rightarrow> proc \<times> outcome" where
  "child_func os s0 =
     (let s = printf ''=> Inside demo container!\<newline>'' [] s0;
          (r, s) = mount os None ''/'' None (MS_REC OR MS_PRIVATE) None s in
      if r \<noteq> 0 then exit EXIT_FAILURE (perror ''mount: make / private failed'' s) else
      let (r, s) = sethostname os ''mycontainer'' 11 s in
      if r \<noteq> 0 then exit EXIT_FAILURE (perror ''sethostname failed'' s) else
      let (r, s) = chroot os ''/tmp/mycontainer_root'' s in
      if r \<noteq> 0 then exit EXIT_FAILURE (perror ''chroot failed'' s) else
      let (r, s) = chdir os ''/'' s in
      if r \<noteq> 0 then exit EXIT_FAILURE (perror ''chdir failed'' s) else
      let (r, s) = mount os (Some ''proc'') ''/proc'' (Some ''proc'') 0 None s in
      if r \<noteq> 0 then exit EXIT_FAILURE (perror ''mount /proc failed'' s) else
      let s = clearenv s;
          (r, s) = setenv os ''PATH'' ''/bin:/usr/bin'' 1 s in
      if r \<noteq> 0 then exit EXIT_FAILURE (perror ''setenv PATH failed'' s) else
      let (r, s) = setenv os ''HOME'' ''/'' 1 s in
      if r \<noteq> 0 then exit EXIT_FAILURE (perror ''setenv HOME failed'' s) else
      let (r, s) = setenv os ''TERM'' ''xterm'' 1 s in
      if r \<noteq> 0 then exit EXIT_FAILURE (perror ''setenv TERM failed'' s) else
      let args = [''/bin/sh''];
          (x, s) = execv os (args ! 0) args s in
      case x of
        Inl replaced \<Rightarrow> (s, replaced)
      | Inr _ \<Rightarrow> (perror ''execv failed'' s, Returned 1))"

subsection \<open>The launcher: \<open>main\<close> (lines 96 to 147)\<close>

text \<open>The condition of line 138 is \<open>a != 0 && b != 0\<close>: the second \<open>umount2\<close> is called
  only when the first returned non-zero.\<close>

definition main :: "os \<Rightarrow> proc \<Rightarrow> proc \<times> outcome" where
  "main os s0 =
     (let s = printf ''=> Starting the container launcher\<newline>'' [] s0;
          flags = CLONE_NEWUTS OR CLONE_NEWPID OR CLONE_NEWNS OR CLONE_NEWNET OR SIGCHLD;
          (pid, s) = clone os Child_func_ptr (Child_stack_plus STACK_SIZE) flags None s in
      if pid = - 1 then exit EXIT_FAILURE (perror ''clone failed'' s) else
      let s = printf ''=> Child PID: %d\<newline>'' [pid] s;
          (r, s) = waitpid os pid None 0 s in
      if r = - 1 then exit EXIT_FAILURE (perror ''waitpid failed'' s) else
      let (r1, s) = umount2 os ''/tmp/mycontainer_root/proc'' MNT_DETACH s;
          (both_failed, s) =
            (if r1 \<noteq> 0
             then (let (r2, s) = umount2 os ''/tmp/mycontainer_root'' MNT_DETACH s
                   in (r2 \<noteq> 0, s))
             else (False, s));
          s = (if both_failed
               then perror ''umount failed (may be okay if child cleaned up)'' s else s);
          s = printf ''=> Container exited\<newline>'' [] s
      in (s, Returned 0))"

subsection \<open>The initial process and the calls it makes\<close>

text \<open>The calls of a trace with their return values, and what a run added to the events
  of the state it started from.\<close>

fun calls_of :: "event list \<Rightarrow> (syscall \<times> int) list" where
  "calls_of [] = []"
| "calls_of (Call c r # es) = (c, r) # calls_of es"
| "calls_of (Printf _ _ # es) = calls_of es"
| "calls_of (Perror _ # es) = calls_of es"

definition new_events :: "proc \<Rightarrow> proc \<Rightarrow> event list" where
  "new_events s0 s = drop (length (events s0)) (events s)"

text \<open>A process of the host: nothing logged yet, an environment \<open>e\<close>, a shared mount
  tree (the default of a systemd host) and no mounts made so far.\<close>

definition host_proc :: "(string \<rightharpoonup> string) \<Rightarrow> proc" where
  "host_proc e =
     \<lparr>events = [], environ = e, propagation = Shared, ns_mounts = [], host_mounts = []\<rparr>"

text \<open>The calls of \<open>child_func\<close>, named after the seven steps of the bootstrap.  Step 6
  is \<open>clearenv\<close> followed by three \<open>setenv\<close>.\<close>

definition privatize_call :: syscall where
  "privatize_call = Mount None ''/'' None (MS_REC OR MS_PRIVATE) None"

definition hostname_call :: syscall where
  "hostname_call = Sethostname ''mycontainer'' 11"

definition chroot_call :: syscall where
  "chroot_call = Chroot ''/tmp/mycontainer_root''"

definition chdir_call :: syscall where
  "chdir_call = Chdir ''/''"

definition proc_call :: syscall where
  "proc_call = Mount (Some ''proc'') ''/proc'' (Some ''proc'') 0 None"

definition path_call :: syscall where
  "path_call = Setenv ''PATH'' ''/bin:/usr/bin'' 1"

definition home_call :: syscall where
  "home_call = Setenv ''HOME'' ''/'' 1"

definition term_call :: syscall where
  "term_call = Setenv ''TERM'' ''xterm'' 1"

definition exec_call :: syscall where
  "exec_call = Execv ''/bin/sh'' [''/bin/sh'']"

datatype step =
    Privatize_mounts | Set_hostname | Switch_root | Change_dir | Mount_proc | Reset_env
  | Replace_image

fun step_calls :: "step \<Rightarrow> syscall list" where
  "step_calls Privatize_mounts = [privatize_call]"
| "step_calls Set_hostname = [hostname_call]"
| "step_calls Switch_root = [chroot_call]"
| "step_calls Change_dir = [chdir_call]"
| "step_calls Mount_proc = [proc_call]"
| "step_calls Reset_env = [Clearenv, path_call, home_call, term_call]"
| "step_calls Replace_image = [exec_call]"

definition bootstrap_steps :: "step list" where
  "bootstrap_steps =
     [Privatize_mounts, Set_hostname, Switch_root, Change_dir, Mount_proc, Reset_env,
      Replace_image]"

definition bootstrap_calls :: "syscall list" where
  "bootstrap_calls = concat (map step_calls bootstrap_steps)"

text \<open>
  What a strict sequence with immediate termination means: the calls are made in the
  order of the list, each one once, and the first call that is not answered 0 is the
  last call made.  \<open>clearenv\<close> is always answered 0.
\<close>

definition answer :: "os \<Rightarrow> syscall \<Rightarrow> int" where
  "answer os c = (if c = Clearenv then 0 else os c)"

fun run_calls :: "os \<Rightarrow> syscall list \<Rightarrow> (syscall \<times> int) list" where
  "run_calls os [] = []"
| "run_calls os (c # cs) =
     (c, answer os c) # (if answer os c = 0 then run_calls os cs else [])"

definition all_succeed :: "os \<Rightarrow> syscall list \<Rightarrow> bool" where
  "all_succeed os cs = list_all (\<lambda>c. answer os c = 0) cs"

text \<open>The environment the bootstrap builds (lines 66 to 77).\<close>

definition allowlist :: "string \<rightharpoonup> string" where
  "allowlist =
     [''PATH'' \<mapsto> ''/bin:/usr/bin'', ''HOME'' \<mapsto> ''/'', ''TERM'' \<mapsto> ''xterm'']"

definition hello :: event where
  "hello = Printf ''=> Inside demo container!\<newline>'' []"

text \<open>The calls of \<open>main\<close>.\<close>

definition clone_call :: syscall where
  "clone_call =
     Clone Child_func_ptr (Child_stack_plus STACK_SIZE)
       (CLONE_NEWUTS OR CLONE_NEWPID OR CLONE_NEWNS OR CLONE_NEWNET OR SIGCHLD) None"

definition wait_call :: "int \<Rightarrow> syscall" where
  "wait_call pid = Waitpid pid None 0"

definition umount_proc_call :: syscall where
  "umount_proc_call = Umount2 ''/tmp/mycontainer_root/proc'' MNT_DETACH"

definition umount_root_call :: syscall where
  "umount_root_call = Umount2 ''/tmp/mycontainer_root'' MNT_DETACH"

definition starting :: event where
  "starting = Printf ''=> Starting the container launcher\<newline>'' []"

definition child_pid :: "int \<Rightarrow> event" where
  "child_pid pid = Printf ''=> Child PID: %d\<newline>'' [pid]"

definition umount_warning :: event where
  "umount_warning = Perror ''umount failed (may be okay if child cleaned up)''"

definition container_exited :: event where
  "container_exited = Printf ''=> Container exited\<newline>'' []"

text \<open>Cleanup as the launcher words it: the detached unmount of the process filesystem
  under the root, then, only when that was not answered 0, of the root itself.\<close>

definition cleanup_calls :: "os \<Rightarrow> (syscall \<times> int) list" where
  "cleanup_calls os =
     (umount_proc_call, os umount_proc_call) #
     (if os umount_proc_call \<noteq> 0 then [(umount_root_call, os umount_root_call)] else [])"

fun is_umount :: "syscall \<Rightarrow> bool" where
  "is_umount (Umount2 _ _) = True"
| "is_umount _ = False"

fun is_clone :: "syscall \<Rightarrow> bool" where
  "is_clone (Clone _ _ _ _) = True"
| "is_clone _ = False"

fun is_execv :: "syscall \<Rightarrow> bool" where
  "is_execv (Execv _ _) = True"
| "is_execv _ = False"

fun is_perror :: "event \<Rightarrow> bool" where
  "is_perror (Perror _) = True"
| "is_perror _ = False"

text \<open>The exit status of a process that has ended without replacing its image.\<close>

fun exit_status :: "outcome \<Rightarrow> int option" where
  "exit_status (Exited n) = Some n"
| "exit_status (Returned n) = Some n"
| "exit_status (Replaced _ _ _) = None"

subsection \<open>Reading the flags of \<open>clone\<close>\<close>

text \<open>The namespaces \<open>clone\<close> can create and the flag of each (\<open>sched.h\<close>).  The time
  namespace has no flag for \<open>clone\<close>: its bit lies in the byte of the exit signal.\<close>

datatype namespace = Mount_ns | Cgroup_ns | Uts_ns | Ipc_ns | User_ns | Pid_ns | Net_ns

fun namespace_flag :: "namespace \<Rightarrow> 32 word" where
  "namespace_flag Mount_ns = CLONE_NEWNS"
| "namespace_flag Cgroup_ns = CLONE_NEWCGROUP"
| "namespace_flag Uts_ns = CLONE_NEWUTS"
| "namespace_flag Ipc_ns = CLONE_NEWIPC"
| "namespace_flag User_ns = CLONE_NEWUSER"
| "namespace_flag Pid_ns = CLONE_NEWPID"
| "namespace_flag Net_ns = CLONE_NEWNET"

definition new_namespaces :: "32 word \<Rightarrow> namespace list" where
  "new_namespaces flags =
     filter (\<lambda>n. flags AND namespace_flag n \<noteq> 0)
       [Mount_ns, Cgroup_ns, Uts_ns, Ipc_ns, User_ns, Pid_ns, Net_ns]"

definition exit_signal :: "32 word \<Rightarrow> 32 word" where
  "exit_signal flags = flags AND CSIGNAL"

subsection \<open>Launcher and isolated process together\<close>

text \<open>
  A launch is a run of \<open>main\<close> on the host and, when \<open>clone\<close> did not return -1, a run of
  \<open>child_func\<close> in the new process, which starts with a copy of the launcher's
  environment and its own answers of the kernel.  \<open>child_status\<close> is the termination
  status the kernel keeps for the child until it is reaped: the exit status of the
  bootstrap when it ended by itself, the exit status \<open>w\<close> of the workload after a
  replaced image.
\<close>

record launch_result =
  launcher :: "proc \<times> outcome"
  isolated :: "(proc \<times> outcome) option"
  child_status :: "int option"

definition launch :: "os \<Rightarrow> os \<Rightarrow> int \<Rightarrow> proc \<Rightarrow> launch_result" where
  "launch host_os child_os w s =
     (let child = (if host_os clone_call = - 1 then None
                   else Some (child_func child_os (s\<lparr>events := [], ns_mounts := []\<rparr>)))
      in \<lparr>launcher = main host_os s,
          isolated = child,
          child_status =
            map_option (\<lambda>c. case exit_status (snd c) of Some n \<Rightarrow> n | None \<Rightarrow> w) child\<rparr>)"

text \<open>Answers of the kernel for concrete runs: everything succeeds (\<open>clone\<close> returns the
  process id 4242 and \<open>waitpid\<close> the id it waited for), or one call fails with -1.\<close>

definition os_ok :: os where
  "os_ok c = (case c of Clone _ _ _ _ \<Rightarrow> 4242 | Waitpid pid _ _ \<Rightarrow> pid | _ \<Rightarrow> 0)"

definition os_failing :: "syscall \<Rightarrow> os" where
  "os_failing bad c = (if c = bad then - 1 else os_ok c)"

section \<open>Properties\<close>

subsection \<open>One call at a time\<close>

lemmas call_defs = privatize_call_def hostname_call_def chroot_call_def chdir_call_def
  proc_call_def path_call_def home_call_def term_call_def exec_call_def hello_def

lemma mount_failed:
  "os (Mount source target fstype flags data) \<noteq> 0 \<Longrightarrow>
   mount os source target fstype flags data s =
     (os (Mount source target fstype flags data),
      s\<lparr>events := events s @ [Call (Mount source target fstype flags data)
                                   (os (Mount source target fstype flags data))]\<rparr>)"
  by (simp add: mount_def syscall_ret_def log_event_def)

lemma mount_private_ok:
  "os (Mount None ''/'' None (MS_REC OR MS_PRIVATE) None) = 0 \<Longrightarrow>
   mount os None ''/'' None (MS_REC OR MS_PRIVATE) None s =
     (0, s\<lparr>events := events s @ [Call (Mount None ''/'' None (MS_REC OR MS_PRIVATE) None) 0],
           propagation := Private\<rparr>)"
  by (simp add: mount_def syscall_ret_def log_event_def mount_effect_def MS_REC_def
      MS_PRIVATE_def)

lemma mount_proc_ok:
  "os (Mount (Some ''proc'') ''/proc'' (Some ''proc'') 0 None) = 0 \<Longrightarrow>
   mount os (Some ''proc'') ''/proc'' (Some ''proc'') 0 None s =
     (0, s\<lparr>events := events s @ [Call (Mount (Some ''proc'') ''/proc'' (Some ''proc'') 0 None) 0],
           ns_mounts := ns_mounts s @ [''/proc''],
           host_mounts := (if propagation s = Shared then host_mounts s @ [''/proc'']
                           else host_mounts s)\<rparr>)"
  by (simp add: mount_def syscall_ret_def log_event_def mount_effect_def)

lemma setenv_failed:
  "os (Setenv name val ov) \<noteq> 0 \<Longrightarrow>
   setenv os name val ov s =
     (os (Setenv name val ov),
      s\<lparr>events := events s @ [Call (Setenv name val ov) (os (Setenv name val ov))]\<rparr>)"
  by (simp add: setenv_def syscall_ret_def log_event_def)

lemma setenv_ok:
  "os (Setenv name val 1) = 0 \<Longrightarrow>
   setenv os name val 1 s =
     (0, s\<lparr>events := events s @ [Call (Setenv name val 1) 0],
           environ := (environ s)(name \<mapsto> val)\<rparr>)"
  by (simp add: setenv_def syscall_ret_def log_event_def)

lemma execv_failed:
  "os (Execv path argv) \<noteq> 0 \<Longrightarrow>
   execv os path argv s =
     (Inr (os (Execv path argv)),
      s\<lparr>events := events s @ [Call (Execv path argv) (os (Execv path argv))]\<rparr>)"
  by (simp add: execv_def syscall_ret_def log_event_def)

lemma execv_ok:
  "os (Execv path argv) = 0 \<Longrightarrow>
   execv os path argv s =
     (Inl (Replaced path argv (environ s)),
      s\<lparr>events := events s @ [Call (Execv path argv) 0]\<rparr>)"
  by (simp add: execv_def syscall_ret_def log_event_def)

lemmas child_steps = mount_failed mount_private_ok mount_proc_ok setenv_failed setenv_ok
  execv_failed execv_ok sethostname_def chroot_def chdir_def clearenv_def syscall_ret_def
  log_event_def printf_def perror_def exit_def

subsection \<open>The ten ways \<open>child_func\<close> can run\<close>

lemma child_fails_privatize:
  assumes "os privatize_call \<noteq> 0"
  shows "child_func os s =
    (s\<lparr>events := events s @ [hello, Call privatize_call (os privatize_call), Perror ''mount: make / private failed'']\<rparr>,
     Exited EXIT_FAILURE)"
  using assms unfolding call_defs
  by (simp add: child_func_def child_steps allowlist_def Let_def)

lemma child_fails_hostname:
  assumes "os privatize_call = 0"
    and "os hostname_call \<noteq> 0"
  shows "child_func os s =
    (s\<lparr>events := events s @ [hello, Call privatize_call 0, Call hostname_call (os hostname_call), Perror ''sethostname failed''],
       propagation := Private\<rparr>,
     Exited EXIT_FAILURE)"
  using assms unfolding call_defs
  by (simp add: child_func_def child_steps allowlist_def Let_def)

lemma child_fails_chroot:
  assumes "os privatize_call = 0"
    and "os hostname_call = 0"
    and "os chroot_call \<noteq> 0"
  shows "child_func os s =
    (s\<lparr>events := events s @ [hello, Call privatize_call 0, Call hostname_call 0, Call chroot_call (os chroot_call), Perror ''chroot failed''],
       propagation := Private\<rparr>,
     Exited EXIT_FAILURE)"
  using assms unfolding call_defs
  by (simp add: child_func_def child_steps allowlist_def Let_def)

lemma child_fails_chdir:
  assumes "os privatize_call = 0"
    and "os hostname_call = 0"
    and "os chroot_call = 0"
    and "os chdir_call \<noteq> 0"
  shows "child_func os s =
    (s\<lparr>events := events s @ [hello, Call privatize_call 0, Call hostname_call 0, Call chroot_call 0, Call chdir_call (os chdir_call), Perror ''chdir failed''],
       propagation := Private\<rparr>,
     Exited EXIT_FAILURE)"
  using assms unfolding call_defs
  by (simp add: child_func_def child_steps allowlist_def Let_def)

lemma child_fails_proc:
  assumes "os privatize_call = 0"
    and "os hostname_call = 0"
    and "os chroot_call = 0"
    and "os chdir_call = 0"
    and "os proc_call \<noteq> 0"
  shows "child_func os s =
    (s\<lparr>events := events s @ [hello, Call privatize_call 0, Call hostname_call 0, Call chroot_call 0, Call chdir_call 0, Call proc_call (os proc_call), Perror ''mount /proc failed''],
       propagation := Private\<rparr>,
     Exited EXIT_FAILURE)"
  using assms unfolding call_defs
  by (simp add: child_func_def child_steps allowlist_def Let_def)

lemma child_fails_path:
  assumes "os privatize_call = 0"
    and "os hostname_call = 0"
    and "os chroot_call = 0"
    and "os chdir_call = 0"
    and "os proc_call = 0"
    and "os path_call \<noteq> 0"
  shows "child_func os s =
    (s\<lparr>events := events s @ [hello, Call privatize_call 0, Call hostname_call 0, Call chroot_call 0, Call chdir_call 0, Call proc_call 0, Call Clearenv 0, Call path_call (os path_call), Perror ''setenv PATH failed''],
       environ := Map.empty,
       propagation := Private,
       ns_mounts := ns_mounts s @ [''/proc'']\<rparr>,
     Exited EXIT_FAILURE)"
  using assms unfolding call_defs
  by (simp add: child_func_def child_steps allowlist_def Let_def)

lemma child_fails_home:
  assumes "os privatize_call = 0"
    and "os hostname_call = 0"
    and "os chroot_call = 0"
    and "os chdir_call = 0"
    and "os proc_call = 0"
    and "os path_call = 0"
    and "os home_call \<noteq> 0"
  shows "child_func os s =
    (s\<lparr>events := events s @ [hello, Call privatize_call 0, Call hostname_call 0, Call chroot_call 0, Call chdir_call 0, Call proc_call 0, Call Clearenv 0, Call path_call 0, Call home_call (os home_call), Perror ''setenv HOME failed''],
       environ := [''PATH'' \<mapsto> ''/bin:/usr/bin''],
       propagation := Private,
       ns_mounts := ns_mounts s @ [''/proc'']\<rparr>,
     Exited EXIT_FAILURE)"
  using assms unfolding call_defs
  by (simp add: child_func_def child_steps allowlist_def Let_def)

lemma child_fails_term:
  assumes "os privatize_call = 0"
    and "os hostname_call = 0"
    and "os chroot_call = 0"
    and "os chdir_call = 0"
    and "os proc_call = 0"
    and "os path_call = 0"
    and "os home_call = 0"
    and "os term_call \<noteq> 0"
  shows "child_func os s =
    (s\<lparr>events := events s @ [hello, Call privatize_call 0, Call hostname_call 0, Call chroot_call 0, Call chdir_call 0, Call proc_call 0, Call Clearenv 0, Call path_call 0, Call home_call 0, Call term_call (os term_call), Perror ''setenv TERM failed''],
       environ := [''PATH'' \<mapsto> ''/bin:/usr/bin'', ''HOME'' \<mapsto> ''/''],
       propagation := Private,
       ns_mounts := ns_mounts s @ [''/proc'']\<rparr>,
     Exited EXIT_FAILURE)"
  using assms unfolding call_defs
  by (simp add: child_func_def child_steps allowlist_def Let_def)

lemma child_fails_exec:
  assumes "os privatize_call = 0"
    and "os hostname_call = 0"
    and "os chroot_call = 0"
    and "os chdir_call = 0"
    and "os proc_call = 0"
    and "os path_call = 0"
    and "os home_call = 0"
    and "os term_call = 0"
    and "os exec_call \<noteq> 0"
  shows "child_func os s =
    (s\<lparr>events := events s @ [hello, Call privatize_call 0, Call hostname_call 0, Call chroot_call 0, Call chdir_call 0, Call proc_call 0, Call Clearenv 0, Call path_call 0, Call home_call 0, Call term_call 0, Call exec_call (os exec_call), Perror ''execv failed''],
       environ := allowlist,
       propagation := Private,
       ns_mounts := ns_mounts s @ [''/proc'']\<rparr>,
     Returned 1)"
  using assms unfolding call_defs
  by (simp add: child_func_def child_steps allowlist_def Let_def)

lemma child_replaced:
  assumes "os privatize_call = 0"
    and "os hostname_call = 0"
    and "os chroot_call = 0"
    and "os chdir_call = 0"
    and "os proc_call = 0"
    and "os path_call = 0"
    and "os home_call = 0"
    and "os term_call = 0"
    and "os exec_call = 0"
  shows "child_func os s =
    (s\<lparr>events := events s @ [hello, Call privatize_call 0, Call hostname_call 0, Call chroot_call 0, Call chdir_call 0, Call proc_call 0, Call Clearenv 0, Call path_call 0, Call home_call 0, Call term_call 0, Call exec_call 0],
       environ := allowlist,
       propagation := Private,
       ns_mounts := ns_mounts s @ [''/proc'']\<rparr>,
     Replaced ''/bin/sh'' [''/bin/sh''] allowlist)"
  using assms unfolding call_defs
  by (simp add: child_func_def child_steps allowlist_def Let_def)

lemma bootstrap_cases:
  fixes os :: os
  obtains
    (fails_privatize) "os privatize_call \<noteq> 0"
  | (fails_hostname) "os privatize_call = 0" "os hostname_call \<noteq> 0"
  | (fails_chroot) "os privatize_call = 0" "os hostname_call = 0" "os chroot_call \<noteq> 0"
  | (fails_chdir) "os privatize_call = 0" "os hostname_call = 0" "os chroot_call = 0" "os chdir_call \<noteq> 0"
  | (fails_proc) "os privatize_call = 0" "os hostname_call = 0" "os chroot_call = 0" "os chdir_call = 0" "os proc_call \<noteq> 0"
  | (fails_path) "os privatize_call = 0" "os hostname_call = 0" "os chroot_call = 0" "os chdir_call = 0" "os proc_call = 0" "os path_call \<noteq> 0"
  | (fails_home) "os privatize_call = 0" "os hostname_call = 0" "os chroot_call = 0" "os chdir_call = 0" "os proc_call = 0" "os path_call = 0" "os home_call \<noteq> 0"
  | (fails_term) "os privatize_call = 0" "os hostname_call = 0" "os chroot_call = 0" "os chdir_call = 0" "os proc_call = 0" "os path_call = 0" "os home_call = 0" "os term_call \<noteq> 0"
  | (fails_exec) "os privatize_call = 0" "os hostname_call = 0" "os chroot_call = 0" "os chdir_call = 0" "os proc_call = 0" "os path_call = 0" "os home_call = 0" "os term_call = 0" "os exec_call \<noteq> 0"
  | (replaced) "os privatize_call = 0" "os hostname_call = 0" "os chroot_call = 0" "os chdir_call = 0" "os proc_call = 0" "os path_call = 0" "os home_call = 0" "os term_call = 0" "os exec_call = 0"
  by blast

subsection \<open>The five ways \<open>main\<close> can run\<close>

lemmas main_steps = clone_def waitpid_def umount2_def syscall_ret_def log_event_def
  printf_def perror_def exit_def Let_def

lemmas main_call_defs = clone_call_def wait_call_def umount_proc_call_def
  umount_root_call_def starting_def child_pid_def umount_warning_def container_exited_def

lemma main_spawn_fails:
  assumes "os clone_call = - 1"
  shows "main os s =
    (s\<lparr>events := events s @ [starting, Call clone_call (- 1), Perror ''clone failed'']\<rparr>,
     Exited EXIT_FAILURE)"
  using assms unfolding main_call_defs
  by (simp add: main_def main_steps)

lemma main_wait_fails:
  assumes "os clone_call \<noteq> - 1"
    and "os (wait_call (os clone_call)) = - 1"
  shows "main os s =
    (s\<lparr>events := events s @
         [starting, Call clone_call (os clone_call), child_pid (os clone_call),
          Call (wait_call (os clone_call)) (- 1), Perror ''waitpid failed'']\<rparr>,
     Exited EXIT_FAILURE)"
  using assms unfolding main_call_defs
  by (simp add: main_def main_steps)

lemma main_unmounts_proc:
  assumes "os clone_call \<noteq> - 1"
    and "os (wait_call (os clone_call)) \<noteq> - 1"
    and "os umount_proc_call = 0"
  shows "main os s =
    (s\<lparr>events := events s @
         [starting, Call clone_call (os clone_call), child_pid (os clone_call),
          Call (wait_call (os clone_call)) (os (wait_call (os clone_call))),
          Call umount_proc_call 0, container_exited]\<rparr>,
     Returned 0)"
  using assms unfolding main_call_defs
  by (simp add: main_def main_steps)

lemma main_unmounts_root:
  assumes "os clone_call \<noteq> - 1"
    and "os (wait_call (os clone_call)) \<noteq> - 1"
    and "os umount_proc_call \<noteq> 0"
    and "os umount_root_call = 0"
  shows "main os s =
    (s\<lparr>events := events s @
         [starting, Call clone_call (os clone_call), child_pid (os clone_call),
          Call (wait_call (os clone_call)) (os (wait_call (os clone_call))),
          Call umount_proc_call (os umount_proc_call), Call umount_root_call 0,
          container_exited]\<rparr>,
     Returned 0)"
  using assms unfolding main_call_defs
  by (simp add: main_def main_steps)

lemma main_warns:
  assumes "os clone_call \<noteq> - 1"
    and "os (wait_call (os clone_call)) \<noteq> - 1"
    and "os umount_proc_call \<noteq> 0"
    and "os umount_root_call \<noteq> 0"
  shows "main os s =
    (s\<lparr>events := events s @
         [starting, Call clone_call (os clone_call), child_pid (os clone_call),
          Call (wait_call (os clone_call)) (os (wait_call (os clone_call))),
          Call umount_proc_call (os umount_proc_call),
          Call umount_root_call (os umount_root_call), umount_warning, container_exited]\<rparr>,
     Returned 0)"
  using assms unfolding main_call_defs
  by (simp add: main_def main_steps)

lemma main_cases:
  fixes os :: os
  obtains
    (spawn_fails) "os clone_call = - 1"
  | (wait_fails) "os clone_call \<noteq> - 1" "os (wait_call (os clone_call)) = - 1"
  | (unmounts_proc) "os clone_call \<noteq> - 1" "os (wait_call (os clone_call)) \<noteq> - 1"
      "os umount_proc_call = 0"
  | (unmounts_root) "os clone_call \<noteq> - 1" "os (wait_call (os clone_call)) \<noteq> - 1"
      "os umount_proc_call \<noteq> 0" "os umount_root_call = 0"
  | (warns) "os clone_call \<noteq> - 1" "os (wait_call (os clone_call)) \<noteq> - 1"
      "os umount_proc_call \<noteq> 0" "os umount_root_call \<noteq> 0"
  by blast

subsection \<open>Sequences that stop at the first failure\<close>

lemma run_calls_prefix: "prefix (map fst (run_calls os cs)) cs"
  by (induction cs) simp_all

lemma run_calls_butlast: "x \<in> set (butlast (run_calls os cs)) \<Longrightarrow> snd x = 0"
proof (induction cs)
  case Nil
  then show ?case by simp
next
  case (Cons c cs)
  show ?case
  proof (cases "answer os c = 0 \<and> run_calls os cs \<noteq> []")
    case True
    with Cons show ?thesis by auto
  next
    case False
    with Cons.prems show ?thesis by (auto split: if_splits)
  qed
qed

lemma calls_distinct:
  "distinct bootstrap_calls"
  by (simp add: bootstrap_calls_def bootstrap_steps_def call_defs)

subsection \<open>Evaluating the named calls\<close>

lemma answer_simps:
  "answer os privatize_call = os privatize_call"
  "answer os hostname_call = os hostname_call"
  "answer os chroot_call = os chroot_call"
  "answer os chdir_call = os chdir_call"
  "answer os proc_call = os proc_call"
  "answer os Clearenv = 0"
  "answer os path_call = os path_call"
  "answer os home_call = os home_call"
  "answer os term_call = os term_call"
  "answer os exec_call = os exec_call"
  by (simp_all add: answer_def call_defs)

lemma bootstrap_calls_eq:
  "bootstrap_calls =
     [privatize_call, hostname_call, chroot_call, chdir_call, proc_call, Clearenv, path_call,
      home_call, term_call, exec_call]"
  by (simp add: bootstrap_calls_def bootstrap_steps_def)

lemma child_calls:
  "calls_of (new_events s (fst (child_func os s))) = run_calls os bootstrap_calls"
proof (cases os rule: bootstrap_cases)
    case fails_privatize
    then show ?thesis
      by (simp add: child_fails_privatize bootstrap_calls_eq answer_simps hello_def new_events_def)
  next
    case fails_hostname
    then show ?thesis
      by (simp add: child_fails_hostname bootstrap_calls_eq answer_simps hello_def new_events_def)
  next
    case fails_chroot
    then show ?thesis
      by (simp add: child_fails_chroot bootstrap_calls_eq answer_simps hello_def new_events_def)
  next
    case fails_chdir
    then show ?thesis
      by (simp add: child_fails_chdir bootstrap_calls_eq answer_simps hello_def new_events_def)
  next
    case fails_proc
    then show ?thesis
      by (simp add: child_fails_proc bootstrap_calls_eq answer_simps hello_def new_events_def)
  next
    case fails_path
    then show ?thesis
      by (simp add: child_fails_path bootstrap_calls_eq answer_simps hello_def new_events_def)
  next
    case fails_home
    then show ?thesis
      by (simp add: child_fails_home bootstrap_calls_eq answer_simps hello_def new_events_def)
  next
    case fails_term
    then show ?thesis
      by (simp add: child_fails_term bootstrap_calls_eq answer_simps hello_def new_events_def)
  next
    case fails_exec
    then show ?thesis
      by (simp add: child_fails_exec bootstrap_calls_eq answer_simps hello_def new_events_def)
  next
    case replaced
    then show ?thesis
      by (simp add: child_replaced bootstrap_calls_eq answer_simps hello_def new_events_def)
qed

lemma child_outcome:
  "if all_succeed os bootstrap_calls
   then snd (child_func os s) = Replaced ''/bin/sh'' [''/bin/sh''] allowlist
   else exit_status (snd (child_func os s)) = Some 1"
proof (cases os rule: bootstrap_cases)
    case fails_privatize
    then show ?thesis
      by (simp add: child_fails_privatize all_succeed_def bootstrap_calls_eq answer_simps EXIT_FAILURE_def)
  next
    case fails_hostname
    then show ?thesis
      by (simp add: child_fails_hostname all_succeed_def bootstrap_calls_eq answer_simps EXIT_FAILURE_def)
  next
    case fails_chroot
    then show ?thesis
      by (simp add: child_fails_chroot all_succeed_def bootstrap_calls_eq answer_simps EXIT_FAILURE_def)
  next
    case fails_chdir
    then show ?thesis
      by (simp add: child_fails_chdir all_succeed_def bootstrap_calls_eq answer_simps EXIT_FAILURE_def)
  next
    case fails_proc
    then show ?thesis
      by (simp add: child_fails_proc all_succeed_def bootstrap_calls_eq answer_simps EXIT_FAILURE_def)
  next
    case fails_path
    then show ?thesis
      by (simp add: child_fails_path all_succeed_def bootstrap_calls_eq answer_simps EXIT_FAILURE_def)
  next
    case fails_home
    then show ?thesis
      by (simp add: child_fails_home all_succeed_def bootstrap_calls_eq answer_simps EXIT_FAILURE_def)
  next
    case fails_term
    then show ?thesis
      by (simp add: child_fails_term all_succeed_def bootstrap_calls_eq answer_simps EXIT_FAILURE_def)
  next
    case fails_exec
    then show ?thesis
      by (simp add: child_fails_exec all_succeed_def bootstrap_calls_eq answer_simps EXIT_FAILURE_def)
  next
    case replaced
    then show ?thesis
      by (simp add: child_replaced all_succeed_def bootstrap_calls_eq answer_simps EXIT_FAILURE_def)
qed

subsection \<open>What decides the outcome of \<open>main\<close>\<close>

lemma main_outcome:
  "snd (main os s) =
     (if os clone_call = - 1 \<or> os (wait_call (os clone_call)) = - 1
      then Exited EXIT_FAILURE else Returned 0)"
proof (cases os rule: main_cases)
  case spawn_fails
  then show ?thesis by (simp add: main_spawn_fails)
next
  case wait_fails
  then show ?thesis by (simp add: main_wait_fails)
next
  case unmounts_proc
  then show ?thesis by (simp add: main_unmounts_proc)
next
  case unmounts_root
  then show ?thesis by (simp add: main_unmounts_root)
next
  case warns
  then show ?thesis by (simp add: main_warns)
qed

lemma main_calls:
  "calls_of (new_events s (fst (main os s))) =
     (if os clone_call = - 1 then [(clone_call, - 1)]
      else if os (wait_call (os clone_call)) = - 1
      then [(clone_call, os clone_call), (wait_call (os clone_call), - 1)]
      else [(clone_call, os clone_call),
            (wait_call (os clone_call), os (wait_call (os clone_call)))] @ cleanup_calls os)"
proof (cases os rule: main_cases)
  case spawn_fails
  then show ?thesis by (simp add: main_spawn_fails new_events_def starting_def)
next
  case wait_fails
  then show ?thesis
    by (simp add: main_wait_fails new_events_def starting_def child_pid_def)
next
  case unmounts_proc
  then show ?thesis
    by (simp add: main_unmounts_proc new_events_def starting_def child_pid_def
        container_exited_def cleanup_calls_def)
next
  case unmounts_root
  then show ?thesis
    by (simp add: main_unmounts_root new_events_def starting_def child_pid_def
        container_exited_def cleanup_calls_def)
next
  case warns
  then show ?thesis
    by (simp add: main_warns new_events_def starting_def child_pid_def
        container_exited_def umount_warning_def cleanup_calls_def)
qed

lemma launcher_launch: "launcher (launch host_os child_os w s) = main host_os s"
  by (simp add: launch_def Let_def)

lemma kind_simps:
  "is_umount clone_call = False" "is_umount (wait_call pid) = False"
  "is_umount umount_proc_call = True" "is_umount umount_root_call = True"
  "is_clone clone_call = True" "is_clone (wait_call pid) = False"
  "is_clone umount_proc_call = False" "is_clone umount_root_call = False"
  "is_execv clone_call = False" "is_execv (wait_call pid) = False"
  "is_execv umount_proc_call = False" "is_execv umount_root_call = False"
  by (simp_all add: clone_call_def wait_call_def umount_proc_call_def umount_root_call_def)

lemma os_ok_simps:
  "os_ok privatize_call = 0" "os_ok hostname_call = 0" "os_ok chroot_call = 0"
  "os_ok chdir_call = 0" "os_ok proc_call = 0" "os_ok path_call = 0" "os_ok home_call = 0"
  "os_ok term_call = 0" "os_ok exec_call = 0" "os_ok clone_call = 4242"
  "os_ok (wait_call pid) = pid" "os_ok umount_proc_call = 0" "os_ok umount_root_call = 0"
  by (simp_all add: os_ok_def call_defs clone_call_def wait_call_def umount_proc_call_def
      umount_root_call_def)

subsection \<open>Concrete kernels\<close>

lemma os_failing_chroot:
  "os_failing chroot_call privatize_call = 0"
  "os_failing chroot_call hostname_call = 0"
  "os_failing chroot_call chroot_call = - 1"
  by (simp_all add: os_failing_def os_ok_def call_defs)

lemma os_failing_exec:
  "os_failing exec_call privatize_call = 0" "os_failing exec_call hostname_call = 0"
  "os_failing exec_call chroot_call = 0" "os_failing exec_call chdir_call = 0"
  "os_failing exec_call proc_call = 0" "os_failing exec_call path_call = 0"
  "os_failing exec_call home_call = 0" "os_failing exec_call term_call = 0"
  "os_failing exec_call exec_call = - 1"
  by (simp_all add: os_failing_def os_ok_def call_defs)

lemma os_failing_wait:
  "os_failing (wait_call 4242) clone_call = 4242"
  "os_failing (wait_call 4242) (wait_call 4242) = - 1"
  "os_failing clone_call clone_call = - 1"
  by (simp_all add: os_failing_def os_ok_def clone_call_def wait_call_def)

lemma os_failing_umount_proc:
  "os_failing umount_proc_call clone_call = 4242"
  "os_failing umount_proc_call (wait_call 4242) = 4242"
  "os_failing umount_proc_call umount_proc_call = - 1"
  "os_failing umount_proc_call umount_root_call = 0"
  by (simp_all add: os_failing_def os_ok_def clone_call_def wait_call_def
      umount_proc_call_def umount_root_call_def)

lemma child_status_example:
  "child_status (launch os_ok os_ok 7 (host_proc Map.empty)) = Some 7"
  "child_status (launch os_ok (os_failing exec_call) 7 (host_proc Map.empty)) = Some 1"
proof -
  have "snd (child_func os_ok s) = Replaced ''/bin/sh'' [''/bin/sh''] allowlist" for s
    by (simp add: child_replaced os_ok_simps)
  then show "child_status (launch os_ok os_ok 7 (host_proc Map.empty)) = Some 7"
    by (simp add: launch_def Let_def os_ok_simps)
  have "snd (child_func (os_failing exec_call) s) = Returned 1" for s
    by (simp add: child_fails_exec os_failing_exec)
  then show
    "child_status (launch os_ok (os_failing exec_call) 7 (host_proc Map.empty)) = Some 1"
    by (simp add: launch_def Let_def os_ok_simps)
qed

section \<open>The claims\<close>

subsection \<open>The bootstrap\<close>

text \<open>
  C1.  The bootstrap makes its calls in the order of the seven steps: privatize mount
  propagation, set the hostname, switch the root, change the working directory, mount the
  process filesystem, reset the environment and set the three variables, replace the
  process image.  For every behaviour of the kernel and every starting state, the calls
  it makes are those of \<open>run_calls\<close> on that list: each call once, in order, none after
  the first one that fails.  So the calls made are a prefix of the list, every call but
  the last made was answered 0, nothing is retried and nothing is undone.  When every
  call succeeds the process image is replaced; otherwise the process ends with status 1.
\<close>

theorem bootstrap_strict_sequence:
  "calls_of (new_events s (fst (child_func os s))) = run_calls os bootstrap_calls
   \<and> bootstrap_calls =
       [privatize_call, hostname_call, chroot_call, chdir_call, proc_call, Clearenv,
        path_call, home_call, term_call, exec_call]
   \<and> prefix (map fst (calls_of (new_events s (fst (child_func os s))))) bootstrap_calls
   \<and> (\<forall>x \<in> set (butlast (calls_of (new_events s (fst (child_func os s))))). snd x = 0)
   \<and> (if all_succeed os bootstrap_calls
       then snd (child_func os s) = Replaced ''/bin/sh'' [''/bin/sh''] allowlist
       else exit_status (snd (child_func os s)) = Some 1)"
  using child_calls [of s os] child_outcome [of os s] run_calls_prefix [of os bootstrap_calls]
    run_calls_butlast [of _ os bootstrap_calls] bootstrap_calls_eq
  by simp

theorem bootstrap_strict_sequence_witness:
  "calls_of (new_events (host_proc Map.empty)
      (fst (child_func (os_failing chroot_call) (host_proc Map.empty)))) =
     [(privatize_call, 0), (hostname_call, 0), (chroot_call, - 1)]
   \<and> exit_status (snd (child_func (os_failing chroot_call) (host_proc Map.empty))) = Some 1"
  using bootstrap_strict_sequence [of "host_proc Map.empty" "os_failing chroot_call"]
  by (simp add: bootstrap_calls_eq all_succeed_def answer_simps os_failing_chroot)

text \<open>
  C2.  As stated, the claim asks for an exit status that tells the failing setup step.
  The code ends the bootstrap with \<open>exit(EXIT_FAILURE)\<close> at each of the first eight
  failing calls and with \<open>return 1\<close> after a failed \<open>execv\<close>: the status is 1 every
  time.  The launcher passes a null status pointer to \<open>waitpid\<close> and returns 0 after
  the wait, so the status of the process the caller started is 0 even then.  Here the
  first step and the last step fail with the same status, and the launcher of a launch
  whose first step failed returns 0.
\<close>

theorem failure_status_not_distinct:
  "exit_status (snd (child_func (os_failing privatize_call) (host_proc Map.empty))) = Some 1
   \<and> exit_status (snd (child_func (os_failing exec_call) (host_proc Map.empty))) = Some 1
   \<and> snd (launcher (launch os_ok (os_failing privatize_call) 0 (host_proc Map.empty))) =
       Returned 0"
proof -
  have "os_failing privatize_call privatize_call \<noteq> 0"
    by (simp add: os_failing_def)
  then have first: "snd (child_func (os_failing privatize_call) (host_proc Map.empty)) =
      Exited EXIT_FAILURE"
    by (simp add: child_fails_privatize)
  have last: "snd (child_func (os_failing exec_call) (host_proc Map.empty)) = Returned 1"
    by (simp add: child_fails_exec os_failing_exec)
  have "snd (main os_ok (host_proc Map.empty)) = Returned 0"
    by (simp add: main_outcome os_ok_simps)
  with first last show ?thesis
    by (simp add: launcher_launch EXIT_FAILURE_def)
qed

text \<open>
  C2, as the code has it.  Whenever a call of the bootstrap fails, the isolated process
  ends with status 1, the same non-zero status for every step.  When \<open>clone\<close> or
  \<open>waitpid\<close> returns -1 the launcher exits with \<open>EXIT_FAILURE\<close>, which is 1.  The launcher
  does not read the status of the isolated process: when both calls succeed it returns 0,
  however the isolated process ended.
\<close>

theorem failure_status_nonzero:
  "(\<not> all_succeed os bootstrap_calls \<longrightarrow> exit_status (snd (child_func os s)) = Some 1)
   \<and> (host_os clone_call = - 1 \<or> host_os (wait_call (host_os clone_call)) = - 1 \<longrightarrow>
        exit_status (snd (launcher (launch host_os child_os w s))) = Some 1)
   \<and> (host_os clone_call \<noteq> - 1 \<and> host_os (wait_call (host_os clone_call)) \<noteq> - 1 \<longrightarrow>
        exit_status (snd (launcher (launch host_os child_os w s))) = Some 0)"
  using child_outcome [of os s]
  by (simp add: launcher_launch main_outcome EXIT_FAILURE_def)

theorem failure_status_nonzero_witness:
  "\<not> all_succeed (os_failing home_call) bootstrap_calls
   \<and> exit_status (snd (child_func (os_failing home_call) (host_proc Map.empty))) = Some 1
   \<and> os_failing clone_call clone_call = - 1
   \<and> exit_status (snd (launcher
         (launch (os_failing clone_call) os_ok 0 (host_proc Map.empty)))) = Some 1
   \<and> exit_status (snd (launcher
         (launch os_ok (os_failing home_call) 0 (host_proc Map.empty)))) = Some 0"
proof -
  have a: "\<not> all_succeed (os_failing home_call) bootstrap_calls"
    by (simp add: all_succeed_def bootstrap_calls_eq answer_simps os_failing_def)
  have b: "os_failing clone_call clone_call = - 1"
    by (simp add: os_failing_def)
  have c: "os_ok clone_call \<noteq> - 1 \<and> os_ok (wait_call (os_ok clone_call)) \<noteq> - 1"
    by (simp add: os_ok_simps)
  show ?thesis
    using a b c
      failure_status_nonzero [of "os_failing home_call" "host_proc Map.empty"
        "os_failing clone_call" os_ok 0]
      failure_status_nonzero [of "os_failing home_call" "host_proc Map.empty"
        os_ok "os_failing home_call" 0]
    by simp
qed

text \<open>
  C3.  When the first six steps have succeeded, the environment of the process is the map
  with exactly the three variables \<open>PATH=/bin:/usr/bin\<close>, \<open>HOME=/\<close> and \<open>TERM=xterm\<close>, and
  that map is what a successful \<open>execv\<close> hands to the workload.  Nothing of the host's
  environment is in it: a variable the host had set under another name is unset, the
  three names carry the literal values whatever the host had under them, and the
  workload gets the same environment for every other environment of the host.
\<close>

theorem environment_isolation:
  "(all_succeed os (butlast bootstrap_calls) \<longrightarrow> environ (fst (child_func os s)) = allowlist)
   \<and> (snd (child_func os s) = Replaced path argv e \<longrightarrow>
        e = allowlist
        \<and> dom e = {''PATH'', ''HOME'', ''TERM''}
        \<and> e ''PATH'' = Some ''/bin:/usr/bin'' \<and> e ''HOME'' = Some ''/''
        \<and> e ''TERM'' = Some ''xterm''
        \<and> (\<forall>n. environ s n \<noteq> None \<and> n \<notin> {''PATH'', ''HOME'', ''TERM''} \<longrightarrow> e n = None)
        \<and> (\<forall>s'. snd (child_func os s') = Replaced path argv e))"
proof -
  have after_reset: "environ (fst (child_func os s)) = allowlist"
    if "all_succeed os (butlast bootstrap_calls)"
  proof (cases "os exec_call = 0")
    case True
    with that show ?thesis
      by (simp add: all_succeed_def bootstrap_calls_eq answer_simps child_replaced)
  next
    case False
    with that show ?thesis
      by (simp add: all_succeed_def bootstrap_calls_eq answer_simps child_fails_exec)
  qed
  have handoff: "e = allowlist \<and> (\<forall>s'. snd (child_func os s') = Replaced path argv e)"
    if r: "snd (child_func os s) = Replaced path argv e"
  proof -
    have ok: "all_succeed os bootstrap_calls"
      using child_outcome [of os s] r by (auto split: if_splits)
    then have all: "snd (child_func os s') = Replaced ''/bin/sh'' [''/bin/sh''] allowlist"
      for s'
      using child_outcome [of os s'] by simp
    from all [of s] r have "path = ''/bin/sh''" "argv = [''/bin/sh'']" "e = allowlist"
      by simp_all
    with all show ?thesis by simp
  qed
  have dom_allowlist: "dom allowlist = {''PATH'', ''HOME'', ''TERM''}"
    by (auto simp: allowlist_def)
  have lits: "allowlist ''PATH'' = Some ''/bin:/usr/bin''" "allowlist ''HOME'' = Some ''/''"
    "allowlist ''TERM'' = Some ''xterm''"
    by (simp_all add: allowlist_def)
  have others: "allowlist n = None" if "n \<notin> {''PATH'', ''HOME'', ''TERM''}" for n
    using that dom_allowlist by blast
  show ?thesis
    using after_reset handoff dom_allowlist lits others by auto
qed

theorem environment_isolation_witness:
  "all_succeed os_ok (butlast bootstrap_calls)
   \<and> snd (child_func os_ok
        (host_proc [''SECRET'' \<mapsto> ''hunter2'', ''PATH'' \<mapsto> ''/opt/host/bin''])) =
      Replaced ''/bin/sh'' [''/bin/sh''] allowlist
   \<and> allowlist ''SECRET'' = None
   \<and> allowlist ''PATH'' = Some ''/bin:/usr/bin''
   \<and> environ (fst (child_func os_ok
        (host_proc [''SECRET'' \<mapsto> ''hunter2'', ''PATH'' \<mapsto> ''/opt/host/bin'']))) = allowlist
   \<and> snd (child_func os_ok (host_proc Map.empty)) =
      Replaced ''/bin/sh'' [''/bin/sh''] allowlist"
proof -
  let ?s = "host_proc [''SECRET'' \<mapsto> ''hunter2'', ''PATH'' \<mapsto> ''/opt/host/bin'']"
  have ok: "all_succeed os_ok (butlast bootstrap_calls)"
    by (simp add: all_succeed_def bootstrap_calls_eq answer_simps os_ok_simps)
  have run: "snd (child_func os_ok ?s) = Replaced ''/bin/sh'' [''/bin/sh''] allowlist"
    by (simp add: child_replaced os_ok_simps)
  have host: "environ ?s ''SECRET'' \<noteq> None \<and> ''SECRET'' \<notin> {''PATH'', ''HOME'', ''TERM''}"
    by (simp add: host_proc_def)
  show ?thesis
    using ok run host
      environment_isolation [of os_ok ?s "''/bin/sh''" "[''/bin/sh'']" allowlist]
    by auto
qed

subsection \<open>The launcher\<close>

text \<open>
  C4.  As stated, cleanup would still run after a failed spawn or a failed wait.  In the
  code both failures end in \<open>exit(EXIT_FAILURE)\<close> (lines 116 and 126), before the
  \<open>umount2\<close> calls of line 138 are reached.  With a failing \<open>clone\<close> the launcher makes
  that one call and no other; with a failing \<open>waitpid\<close> it makes these two.
\<close>

theorem cleanup_skipped_on_failure:
  "calls_of (new_events (host_proc Map.empty)
      (fst (main (os_failing clone_call) (host_proc Map.empty)))) = [(clone_call, - 1)]
   \<and> calls_of (new_events (host_proc Map.empty)
      (fst (main (os_failing (wait_call 4242)) (host_proc Map.empty)))) =
     [(clone_call, 4242), (wait_call 4242, - 1)]"
  by (simp add: main_calls os_failing_wait)

text \<open>
  C4, as the code has it.  When the spawn and the wait have succeeded, cleanup runs as the
  last calls of the launcher, however the isolated process ended (whatever the kernel
  answered it and whatever status the workload left).  When the spawn or the wait fails,
  the launcher exits with \<open>EXIT_FAILURE\<close> and makes no \<open>umount2\<close> call.
\<close>

theorem cleanup_after_successful_wait:
  "(host_os clone_call \<noteq> - 1 \<and> host_os (wait_call (host_os clone_call)) \<noteq> - 1 \<longrightarrow>
      drop 2 (calls_of (new_events s (fst (launcher (launch host_os child_os w s))))) =
        cleanup_calls host_os
      \<and> list_all (is_umount \<circ> fst) (cleanup_calls host_os)
      \<and> cleanup_calls host_os \<noteq> [])
   \<and> (host_os clone_call = - 1 \<or> host_os (wait_call (host_os clone_call)) = - 1 \<longrightarrow>
      filter (is_umount \<circ> fst)
        (calls_of (new_events s (fst (launcher (launch host_os child_os w s))))) = []
      \<and> snd (launcher (launch host_os child_os w s)) = Exited EXIT_FAILURE)"
  by (simp add: launcher_launch main_calls main_outcome cleanup_calls_def kind_simps)

theorem cleanup_after_successful_wait_witness:
  "os_ok clone_call \<noteq> - 1 \<and> os_ok (wait_call (os_ok clone_call)) \<noteq> - 1
   \<and> drop 2 (calls_of (new_events (host_proc Map.empty)
        (fst (launcher (launch os_ok (os_failing exec_call) 3 (host_proc Map.empty)))))) =
      [(umount_proc_call, 0)]
   \<and> os_failing clone_call clone_call = - 1
   \<and> snd (launcher (launch (os_failing clone_call) os_ok 3 (host_proc Map.empty))) =
      Exited EXIT_FAILURE"
  using
    cleanup_after_successful_wait [of os_ok "host_proc Map.empty" "os_failing exec_call" 3]
    cleanup_after_successful_wait [of "os_failing clone_call" "host_proc Map.empty" os_ok 3]
  by (simp add: os_ok_simps os_failing_wait cleanup_calls_def)

text \<open>
  C5.  The first call of the launcher is \<open>clone\<close>, and it is its only \<open>clone\<close>.  The
  function passed is \<open>child_func\<close>, the stack pointer is the top of the array
  \<open>child_stack\<close> of \<open>STACK_SIZE\<close> (1 MiB) bytes, the last argument is \<open>NULL\<close>.  The namespace
  flags set are exactly those of the UTS, PID, mount and network namespaces, and the exit
  signal in the low byte is \<open>SIGCHLD\<close>.  When the call does not return -1, the value it
  returned is the process id the launcher prints and waits for.
\<close>

theorem spawn_request:
  "calls_of (new_events s (fst (main os s))) \<noteq> []
   \<and> hd (calls_of (new_events s (fst (main os s)))) =
       (Clone Child_func_ptr (Child_stack_plus STACK_SIZE)
          (CLONE_NEWUTS OR CLONE_NEWPID OR CLONE_NEWNS OR CLONE_NEWNET OR SIGCHLD) None,
        os clone_call)
   \<and> filter (is_clone \<circ> fst) (tl (calls_of (new_events s (fst (main os s))))) = []
   \<and> STACK_SIZE = 1048576
   \<and> set (new_namespaces
        (CLONE_NEWUTS OR CLONE_NEWPID OR CLONE_NEWNS OR CLONE_NEWNET OR SIGCHLD)) =
       {Uts_ns, Pid_ns, Mount_ns, Net_ns}
   \<and> exit_signal (CLONE_NEWUTS OR CLONE_NEWPID OR CLONE_NEWNS OR CLONE_NEWNET OR SIGCHLD) =
       SIGCHLD
   \<and> (os clone_call \<noteq> - 1 \<longrightarrow>
        take 4 (new_events s (fst (main os s))) =
          [starting, Call clone_call (os clone_call), child_pid (os clone_call),
           Call (Waitpid (os clone_call) None 0) (os (wait_call (os clone_call)))])"
proof -
  have calls: "calls_of (new_events s (fst (main os s))) \<noteq> []
      \<and> hd (calls_of (new_events s (fst (main os s)))) = (clone_call, os clone_call)
      \<and> filter (is_clone \<circ> fst) (tl (calls_of (new_events s (fst (main os s))))) = []"
    by (simp add: main_calls cleanup_calls_def kind_simps)
  have flags: "set (new_namespaces
        (CLONE_NEWUTS OR CLONE_NEWPID OR CLONE_NEWNS OR CLONE_NEWNET OR SIGCHLD)) =
       {Uts_ns, Pid_ns, Mount_ns, Net_ns}"
    by (auto simp: new_namespaces_def CLONE_NEWUTS_def CLONE_NEWPID_def CLONE_NEWNS_def
        CLONE_NEWNET_def CLONE_NEWCGROUP_def CLONE_NEWIPC_def CLONE_NEWUSER_def SIGCHLD_def)
  have signal: "exit_signal
        (CLONE_NEWUTS OR CLONE_NEWPID OR CLONE_NEWNS OR CLONE_NEWNET OR SIGCHLD) = SIGCHLD"
    by (simp add: exit_signal_def CSIGNAL_def CLONE_NEWUTS_def CLONE_NEWPID_def
        CLONE_NEWNS_def CLONE_NEWNET_def SIGCHLD_def)
  have pid: "take 4 (new_events s (fst (main os s))) =
          [starting, Call clone_call (os clone_call), child_pid (os clone_call),
           Call (wait_call (os clone_call)) (os (wait_call (os clone_call)))]"
    if "os clone_call \<noteq> - 1"
  proof (cases os rule: main_cases)
    case spawn_fails
    with that show ?thesis by simp
  next
    case wait_fails
    then show ?thesis by (simp add: main_wait_fails new_events_def)
  next
    case unmounts_proc
    then show ?thesis by (simp add: main_unmounts_proc new_events_def)
  next
    case unmounts_root
    then show ?thesis by (simp add: main_unmounts_root new_events_def)
  next
    case warns
    then show ?thesis by (simp add: main_warns new_events_def)
  qed
  have size: "STACK_SIZE = 1048576"
    by (simp add: STACK_SIZE_def)
  show ?thesis
    using calls flags signal pid size
    by (simp add: clone_call_def [symmetric] wait_call_def [symmetric])
qed

theorem spawn_request_witness:
  "os_ok clone_call \<noteq> - 1
   \<and> take 4 (new_events (host_proc Map.empty) (fst (main os_ok (host_proc Map.empty)))) =
       [starting, Call clone_call 4242, child_pid 4242, Call (Waitpid 4242 None 0) 4242]"
  using spawn_request [of "host_proc Map.empty" os_ok]
  by (simp add: os_ok_simps)

text \<open>
  C6.  After a successful wait the launcher calls \<open>umount2\<close> with \<open>MNT_DETACH\<close> on the
  process filesystem under the root path and, only when that call did not return 0, on
  the root path itself; it makes no further call.  When both fail the warning is written.
  Whatever the two calls return, \<open>main\<close> returns 0, and the outcome of the launcher is
  the same for any two kernels that differ only in what they answer to \<open>umount2\<close>.
\<close>

theorem cleanup_best_effort:
  "(os clone_call \<noteq> - 1 \<and> os (wait_call (os clone_call)) \<noteq> - 1 \<longrightarrow>
      drop 2 (calls_of (new_events s (fst (main os s)))) =
        (Umount2 ''/tmp/mycontainer_root/proc'' MNT_DETACH, os umount_proc_call) #
        (if os umount_proc_call \<noteq> 0
         then [(Umount2 ''/tmp/mycontainer_root'' MNT_DETACH, os umount_root_call)] else [])
      \<and> (os umount_proc_call \<noteq> 0 \<and> os umount_root_call \<noteq> 0 \<longrightarrow>
           umount_warning \<in> set (new_events s (fst (main os s))))
      \<and> snd (main os s) = Returned 0)
   \<and> ((\<forall>c. \<not> is_umount c \<longrightarrow> os' c = os c) \<longrightarrow> snd (main os' s) = snd (main os s))
   \<and> MNT_DETACH = 2"
proof -
  have calls: "drop 2 (calls_of (new_events s (fst (main os s)))) = cleanup_calls os"
    and out: "snd (main os s) = Returned 0"
    if "os clone_call \<noteq> - 1" "os (wait_call (os clone_call)) \<noteq> - 1"
    using that by (simp_all add: main_calls main_outcome)
  have warning: "umount_warning \<in> set (new_events s (fst (main os s)))"
    if "os clone_call \<noteq> - 1" "os (wait_call (os clone_call)) \<noteq> - 1"
      "os umount_proc_call \<noteq> 0" "os umount_root_call \<noteq> 0"
    using that by (simp add: main_warns new_events_def)
  have same: "snd (main os' s) = snd (main os s)" if "\<forall>c. \<not> is_umount c \<longrightarrow> os' c = os c"
  proof -
    from that have "os' clone_call = os clone_call"
      by (simp add: kind_simps)
    moreover from that have "os' (wait_call (os clone_call)) = os (wait_call (os clone_call))"
      by (simp add: kind_simps)
    ultimately show ?thesis
      by (simp add: main_outcome)
  qed
  have lazy: "MNT_DETACH = 2"
    by (simp add: MNT_DETACH_def)
  show ?thesis
    using calls out warning same lazy
    unfolding cleanup_calls_def umount_proc_call_def umount_root_call_def
    by simp
qed

theorem cleanup_best_effort_witness:
  "os_failing umount_proc_call clone_call \<noteq> - 1
   \<and> os_failing umount_proc_call (wait_call (os_failing umount_proc_call clone_call)) \<noteq> - 1
   \<and> drop 2 (calls_of (new_events (host_proc Map.empty)
        (fst (main (os_failing umount_proc_call) (host_proc Map.empty))))) =
      [(Umount2 ''/tmp/mycontainer_root/proc'' MNT_DETACH, - 1),
       (Umount2 ''/tmp/mycontainer_root'' MNT_DETACH, 0)]
   \<and> snd (main (os_failing umount_proc_call) (host_proc Map.empty)) = Returned 0"
  using cleanup_best_effort [of "os_failing umount_proc_call" "host_proc Map.empty"]
  by (simp add: os_failing_umount_proc)

text \<open>
  C7.  When \<open>clone\<close> returns -1 the launcher writes the error and exits with
  \<open>EXIT_FAILURE\<close>, which is not 0: it makes no other call, and no isolated process runs.
  When \<open>waitpid\<close> returns -1 it writes the error and exits with \<open>EXIT_FAILURE\<close> as well.
  In no run does the launcher itself call \<open>execv\<close>: the workload is only started by the
  bootstrap inside the new process.
\<close>

theorem spawn_wait_failure_fatal:
  "(host_os clone_call = - 1 \<longrightarrow>
      new_events s (fst (launcher (launch host_os child_os w s))) =
        [starting, Call clone_call (- 1), Perror ''clone failed'']
      \<and> snd (launcher (launch host_os child_os w s)) = Exited EXIT_FAILURE
      \<and> isolated (launch host_os child_os w s) = None)
   \<and> (host_os clone_call \<noteq> - 1 \<and> host_os (wait_call (host_os clone_call)) = - 1 \<longrightarrow>
      new_events s (fst (launcher (launch host_os child_os w s))) =
        [starting, Call clone_call (host_os clone_call), child_pid (host_os clone_call),
         Call (wait_call (host_os clone_call)) (- 1), Perror ''waitpid failed'']
      \<and> snd (launcher (launch host_os child_os w s)) = Exited EXIT_FAILURE)
   \<and> EXIT_FAILURE \<noteq> 0
   \<and> filter (is_execv \<circ> fst)
        (calls_of (new_events s (fst (launcher (launch host_os child_os w s))))) = []"
proof -
  have "filter (is_execv \<circ> fst) (calls_of (new_events s (fst (main host_os s)))) = []"
    by (simp add: main_calls cleanup_calls_def kind_simps)
  moreover have "isolated (launch host_os child_os w s) = None" if "host_os clone_call = - 1"
    using that by (simp add: launch_def Let_def)
  ultimately show ?thesis
    by (simp add: launcher_launch main_spawn_fails main_wait_fails new_events_def
        EXIT_FAILURE_def)
qed

theorem spawn_wait_failure_fatal_witness:
  "os_failing clone_call clone_call = - 1
   \<and> new_events (host_proc Map.empty)
        (fst (launcher (launch (os_failing clone_call) os_ok 0 (host_proc Map.empty)))) =
      [starting, Call clone_call (- 1), Perror ''clone failed'']
   \<and> os_failing (wait_call 4242) clone_call \<noteq> - 1
   \<and> os_failing (wait_call 4242) (wait_call (os_failing (wait_call 4242) clone_call)) = - 1
   \<and> snd (launcher (launch (os_failing (wait_call 4242)) os_ok 0 (host_proc Map.empty))) =
      Exited EXIT_FAILURE"
  using
    spawn_wait_failure_fatal [of "os_failing clone_call" "host_proc Map.empty" os_ok 0]
    spawn_wait_failure_fatal [of "os_failing (wait_call 4242)" "host_proc Map.empty" os_ok 0]
  by (simp add: os_failing_wait)

text \<open>
  C8.  When \<open>clone\<close> and \<open>waitpid\<close> have not returned -1, \<open>main\<close> returns 0, for every
  answer of the kernel to the bootstrap and every exit status \<open>w\<close> of the workload.  The
  status pointer passed to \<open>waitpid\<close> is \<open>NULL\<close>: the launcher does not receive the status
  the kernel keeps for the child.
\<close>

theorem supervision_cycle_exit_zero:
  "host_os clone_call \<noteq> - 1 \<and> host_os (wait_call (host_os clone_call)) \<noteq> - 1 \<longrightarrow>
     snd (launcher (launch host_os child_os w s)) = Returned 0
     \<and> exit_status (snd (launcher (launch host_os child_os w s))) = Some 0
     \<and> calls_of (new_events s (fst (launcher (launch host_os child_os w s)))) ! 1 =
         (Waitpid (host_os clone_call) None 0, host_os (wait_call (host_os clone_call)))"
  by (simp add: launcher_launch main_outcome main_calls wait_call_def)

theorem supervision_cycle_exit_zero_witness:
  "os_ok clone_call \<noteq> - 1 \<and> os_ok (wait_call (os_ok clone_call)) \<noteq> - 1
   \<and> child_status (launch os_ok os_ok 7 (host_proc Map.empty)) = Some 7
   \<and> snd (launcher (launch os_ok os_ok 7 (host_proc Map.empty))) = Returned 0
   \<and> child_status (launch os_ok (os_failing exec_call) 7 (host_proc Map.empty)) = Some 1
   \<and> snd (launcher (launch os_ok (os_failing exec_call) 7 (host_proc Map.empty))) =
      Returned 0"
  using supervision_cycle_exit_zero [of os_ok "os_ok" 7 "host_proc Map.empty"]
    supervision_cycle_exit_zero [of os_ok "os_failing exec_call" 7 "host_proc Map.empty"]
    child_status_example
  by (simp add: os_ok_simps)

subsection \<open>Mounts\<close>

text \<open>
  C9.  The first call of the bootstrap marks the mount tree of the new namespace
  recursively private, and every other call (the root switch and the mount of the
  process filesystem among them) is made only after that call has returned 0.  So the
  mount of \<open>/proc\<close> is made in a private tree: it appears among the mounts of the
  namespace, and the mount table of the host is the same after the bootstrap as before,
  for every answer of the kernel and whether the tree was shared or private at the
  start.
\<close>

theorem mounts_not_propagated:
  "host_mounts (fst (child_func os s)) = host_mounts s
   \<and> (\<forall>x \<in> set (calls_of (new_events s (fst (child_func os s)))).
        fst x \<noteq> privatize_call \<longrightarrow>
        hd (calls_of (new_events s (fst (child_func os s)))) = (privatize_call, 0))
   \<and> privatize_call = Mount None ''/'' None (MS_REC OR MS_PRIVATE) None
   \<and> (all_succeed os (take 5 bootstrap_calls) \<longrightarrow>
        propagation (fst (child_func os s)) = Private
        \<and> ns_mounts (fst (child_func os s)) = ns_mounts s @ [''/proc''])"
proof -
  have host: "host_mounts (fst (child_func os s)) = host_mounts s"
  proof (cases os rule: bootstrap_cases)
    case fails_privatize
    then show ?thesis
      by (simp add: child_fails_privatize )
  next
    case fails_hostname
    then show ?thesis
      by (simp add: child_fails_hostname )
  next
    case fails_chroot
    then show ?thesis
      by (simp add: child_fails_chroot )
  next
    case fails_chdir
    then show ?thesis
      by (simp add: child_fails_chdir )
  next
    case fails_proc
    then show ?thesis
      by (simp add: child_fails_proc )
  next
    case fails_path
    then show ?thesis
      by (simp add: child_fails_path )
  next
    case fails_home
    then show ?thesis
      by (simp add: child_fails_home )
  next
    case fails_term
    then show ?thesis
      by (simp add: child_fails_term )
  next
    case fails_exec
    then show ?thesis
      by (simp add: child_fails_exec )
  next
    case replaced
    then show ?thesis
      by (simp add: child_replaced )
  qed
  have first: "hd (calls_of (new_events s (fst (child_func os s)))) = (privatize_call, 0)"
    if "x \<in> set (calls_of (new_events s (fst (child_func os s))))"
      and "fst x \<noteq> privatize_call" for x
  proof (cases "os privatize_call = 0")
    case True
    then show ?thesis
      by (simp add: child_calls bootstrap_calls_eq answer_simps)
  next
    case False
    with that show ?thesis
      by (simp add: child_calls bootstrap_calls_eq answer_simps)
  qed
  have made: "propagation (fst (child_func os s)) = Private
      \<and> ns_mounts (fst (child_func os s)) = ns_mounts s @ [''/proc'']"
    if "all_succeed os (take 5 bootstrap_calls)"
  proof (cases os rule: bootstrap_cases)
    case fails_privatize
    with that show ?thesis
      by (simp add: child_fails_privatize all_succeed_def bootstrap_calls_eq answer_simps)
  next
    case fails_hostname
    with that show ?thesis
      by (simp add: child_fails_hostname all_succeed_def bootstrap_calls_eq answer_simps)
  next
    case fails_chroot
    with that show ?thesis
      by (simp add: child_fails_chroot all_succeed_def bootstrap_calls_eq answer_simps)
  next
    case fails_chdir
    with that show ?thesis
      by (simp add: child_fails_chdir all_succeed_def bootstrap_calls_eq answer_simps)
  next
    case fails_proc
    with that show ?thesis
      by (simp add: child_fails_proc all_succeed_def bootstrap_calls_eq answer_simps)
  next
    case fails_path
    with that show ?thesis
      by (simp add: child_fails_path all_succeed_def bootstrap_calls_eq answer_simps)
  next
    case fails_home
    with that show ?thesis
      by (simp add: child_fails_home all_succeed_def bootstrap_calls_eq answer_simps)
  next
    case fails_term
    with that show ?thesis
      by (simp add: child_fails_term all_succeed_def bootstrap_calls_eq answer_simps)
  next
    case fails_exec
    with that show ?thesis
      by (simp add: child_fails_exec all_succeed_def bootstrap_calls_eq answer_simps)
  next
    case replaced
    with that show ?thesis
      by (simp add: child_replaced all_succeed_def bootstrap_calls_eq answer_simps)
  qed
  show ?thesis
    using host first made by (simp add: privatize_call_def)
qed

theorem mounts_not_propagated_witness:
  "all_succeed os_ok (take 5 bootstrap_calls)
   \<and> propagation (host_proc Map.empty) = Shared
   \<and> ns_mounts (fst (child_func os_ok (host_proc Map.empty))) = [''/proc'']
   \<and> host_mounts (fst (child_func os_ok (host_proc Map.empty))) = []
   \<and> (chroot_call, 0) \<in> set (calls_of (new_events (host_proc Map.empty)
        (fst (child_func os_ok (host_proc Map.empty)))))
   \<and> chroot_call \<noteq> privatize_call
   \<and> hd (calls_of (new_events (host_proc Map.empty)
        (fst (child_func os_ok (host_proc Map.empty))))) = (privatize_call, 0)"
proof -
  have ok: "all_succeed os_ok (take 5 bootstrap_calls)"
    by (simp add: all_succeed_def bootstrap_calls_eq answer_simps os_ok_simps)
  have made: "(chroot_call, 0) \<in> set (calls_of (new_events (host_proc Map.empty)
        (fst (child_func os_ok (host_proc Map.empty)))))"
    by (simp add: child_calls bootstrap_calls_eq answer_simps os_ok_simps)
  have differ: "chroot_call \<noteq> privatize_call"
    by (simp add: call_defs)
  note run = mounts_not_propagated [of os_ok "host_proc Map.empty"]
  from run have "\<forall>x \<in> set (calls_of (new_events (host_proc Map.empty)
        (fst (child_func os_ok (host_proc Map.empty))))).
      fst x \<noteq> privatize_call \<longrightarrow>
      hd (calls_of (new_events (host_proc Map.empty)
        (fst (child_func os_ok (host_proc Map.empty))))) = (privatize_call, 0)"
    by blast
  with made differ have first:
    "hd (calls_of (new_events (host_proc Map.empty)
        (fst (child_func os_ok (host_proc Map.empty))))) = (privatize_call, 0)"
    by force
  from run ok have "ns_mounts (fst (child_func os_ok (host_proc Map.empty))) =
      ns_mounts (host_proc Map.empty) @ [''/proc'']"
    and "host_mounts (fst (child_func os_ok (host_proc Map.empty))) =
      host_mounts (host_proc Map.empty)"
    by blast+
  then have tables: "ns_mounts (fst (child_func os_ok (host_proc Map.empty))) = [''/proc'']"
    "host_mounts (fst (child_func os_ok (host_proc Map.empty))) = []"
    by (simp_all add: host_proc_def)
  have "propagation (host_proc Map.empty) = Shared"
    by (simp add: host_proc_def)
  with ok made differ first tables show ?thesis
    by simp
qed

text \<open>
  C10.  The launcher calls \<open>umount2\<close> on the root path exactly when it has reached cleanup
  and the \<open>umount2\<close> of the process filesystem did not return 0.  It writes the cleanup
  warning exactly when both calls did not return 0.  When the first fails and the second
  returns 0, the launcher writes no error message at all.
\<close>

theorem cleanup_warning_iff:
  "(umount_root_call \<in> fst ` set (calls_of (new_events s (fst (main os s)))) \<longleftrightarrow>
      os clone_call \<noteq> - 1 \<and> os (wait_call (os clone_call)) \<noteq> - 1
      \<and> os umount_proc_call \<noteq> 0)
   \<and> (umount_warning \<in> set (new_events s (fst (main os s))) \<longleftrightarrow>
      os clone_call \<noteq> - 1 \<and> os (wait_call (os clone_call)) \<noteq> - 1
      \<and> os umount_proc_call \<noteq> 0 \<and> os umount_root_call \<noteq> 0)
   \<and> (os clone_call \<noteq> - 1 \<and> os (wait_call (os clone_call)) \<noteq> - 1
      \<and> os umount_proc_call \<noteq> 0 \<and> os umount_root_call = 0 \<longrightarrow>
      filter is_perror (new_events s (fst (main os s))) = [])"
proof -
  have second: "umount_root_call \<in> fst ` set (calls_of (new_events s (fst (main os s)))) \<longleftrightarrow>
      os clone_call \<noteq> - 1 \<and> os (wait_call (os clone_call)) \<noteq> - 1
      \<and> os umount_proc_call \<noteq> 0"
    by (auto simp: main_calls cleanup_calls_def clone_call_def wait_call_def
        umount_proc_call_def umount_root_call_def)
  have warning: "umount_warning \<in> set (new_events s (fst (main os s))) \<longleftrightarrow>
      os clone_call \<noteq> - 1 \<and> os (wait_call (os clone_call)) \<noteq> - 1
      \<and> os umount_proc_call \<noteq> 0 \<and> os umount_root_call \<noteq> 0"
  proof (cases os rule: main_cases)
    case spawn_fails
    then show ?thesis
      by (simp add: main_spawn_fails new_events_def starting_def child_pid_def umount_warning_def container_exited_def)
  next
    case wait_fails
    then show ?thesis
      by (simp add: main_wait_fails new_events_def starting_def child_pid_def umount_warning_def container_exited_def)
  next
    case unmounts_proc
    then show ?thesis
      by (simp add: main_unmounts_proc new_events_def starting_def child_pid_def umount_warning_def container_exited_def)
  next
    case unmounts_root
    then show ?thesis
      by (simp add: main_unmounts_root new_events_def starting_def child_pid_def umount_warning_def container_exited_def)
  next
    case warns
    then show ?thesis
      by (simp add: main_warns new_events_def starting_def child_pid_def umount_warning_def container_exited_def)
  qed
  have silent: "filter is_perror (new_events s (fst (main os s))) = []"
    if "os clone_call \<noteq> - 1" "os (wait_call (os clone_call)) \<noteq> - 1"
      "os umount_proc_call \<noteq> 0" "os umount_root_call = 0"
    using that
    by (simp add: main_unmounts_root new_events_def starting_def child_pid_def
        container_exited_def)
  show ?thesis
    using second warning silent by simp
qed

theorem cleanup_warning_iff_witness:
  "os_failing umount_proc_call clone_call \<noteq> - 1
   \<and> os_failing umount_proc_call (wait_call (os_failing umount_proc_call clone_call)) \<noteq> - 1
   \<and> os_failing umount_proc_call umount_proc_call \<noteq> 0
   \<and> os_failing umount_proc_call umount_root_call = 0
   \<and> umount_root_call \<in> fst ` set (calls_of (new_events (host_proc Map.empty)
        (fst (main (os_failing umount_proc_call) (host_proc Map.empty)))))
   \<and> umount_warning \<notin> set (new_events (host_proc Map.empty)
        (fst (main (os_failing umount_proc_call) (host_proc Map.empty))))
   \<and> filter is_perror (new_events (host_proc Map.empty)
        (fst (main (os_failing umount_proc_call) (host_proc Map.empty)))) = []"
  using cleanup_warning_iff [of "host_proc Map.empty" "os_failing umount_proc_call"]
  by (simp add: os_failing_umount_proc)

end
